theory Spec2Isabelle
  imports Main "HOL-Library.Word"
begin

section \<open>Go values: byte slices, errors, panics, contexts\<close>

text \<open>
  A Go \<^verbatim>\<open>[]byte\<close> passed into the adapters is a list of 8-bit words; \<^verbatim>\<open>b++\<close> on a byte wraps
  around at 256, which is the addition of \<open>8 word\<close>.
\<close>

type_synonym bytes = "8 word list"

text \<open>
  A Go \<^verbatim>\<open>error\<close> is \<open>go_error option\<close>, \<open>None\<close> being \<^verbatim>\<open>nil\<close>. The context errors are the two
  values of package \<^verbatim>\<open>context\<close>; \<open>JoinError\<close> is what \<^verbatim>\<open>errors.Join\<close> builds.
\<close>

datatype go_error =
    Canceled
  | DeadlineExceeded
  | EngineError string
  | JoinError "go_error list"

type_synonym error = "go_error option"

text \<open>
  A call either returns or panics. \<open>IndexOutOfRange i n\<close> is the runtime panic
  \<^verbatim>\<open>index out of range [i] with length n\<close>; \<open>NilDereference\<close> is a method call through a nil
  interface or pointer; \<open>EnginePanic\<close> is a panic raised inside the storage engine.
\<close>

datatype panic =
    IndexOutOfRange int nat
  | NilDereference
  | EnginePanic go_error

datatype 'a outcome = Return 'a | Panic panic

text \<open>\<^verbatim>\<open>ctx.Err()\<close>: nil for a live context, otherwise the reason it is done.\<close>

datatype "context" = Background | Cancelled | DeadlinePassed

fun ctx_Err :: "context \<Rightarrow> error" where
  "ctx_Err Background = None"
| "ctx_Err Cancelled = Some Canceled"
| "ctx_Err DeadlinePassed = Some DeadlineExceeded"

text \<open>
  A byte slice that comes back from a call is \<^verbatim>\<open>nil\<close> or has a backing array. The array is
  either allocated by the adapter for the caller (\<open>Caller\<close>) or is memory of the storage
  engine (\<open>Engine\<close>), which the engine may rewrite once the slice's guard has been released.
  \<open>read_later junk s\<close> is what a caller who kept \<open>s\<close> reads after the engine has rewritten
  its buffers with \<open>junk\<close>.
\<close>

datatype owner = Caller | Engine

datatype slice = NilSlice | Slice owner bytes

fun slice_bytes :: "slice \<Rightarrow> bytes" where
  "slice_bytes NilSlice = []"
| "slice_bytes (Slice w bs) = bs"

fun read_later :: "bytes \<Rightarrow> slice \<Rightarrow> bytes" where
  "read_later junk NilSlice = []"
| "read_later junk (Slice Caller bs) = bs"
| "read_later junk (Slice Engine bs) = junk"

text \<open>\<^verbatim>\<open>append([]byte{}, val...)\<close>: a new array holding the bytes of \<open>val\<close>.\<close>

definition append_copy :: "slice \<Rightarrow> slice" where
  "append_copy val = Slice Caller (slice_bytes val)"

text \<open>\<^verbatim>\<open>s[i]\<close> and \<^verbatim>\<open>s[i]++\<close> with Go's bounds check; \<open>i\<close> is a Go \<^verbatim>\<open>int\<close>.\<close>

definition index_at :: "'a list \<Rightarrow> int \<Rightarrow> 'a outcome" where
  "index_at s i =
     (if i < 0 \<or> int (length s) \<le> i then Panic (IndexOutOfRange i (length s))
      else Return (s ! nat i))"

definition incr_at :: "bytes \<Rightarrow> int \<Rightarrow> bytes outcome" where
  "incr_at s i =
     (if i < 0 \<or> int (length s) \<le> i then Panic (IndexOutOfRange i (length s))
      else Return (s[nat i := s ! nat i + 1]))"


section \<open>The storage engines\<close>

text \<open>
  Modelled from the spec: the two storage engines, the Pebble and Badger libraries. They
  are external collaborators of the repository; the adapters consume them only through
  the primitives of the collaborator boundary: open, get/set/delete, new-write-batch,
  batch set/delete/flush, new-iterator, iterator first/next/valid/key/value, close.
  Their reference semantics here is an in-memory ordered store. A write batch queues its
  operations locally and applies them together on commit. What an engine does on a batch
  that was already committed is what the repository's own adapter tests assert: Pebble
  panics, Badger returns an error. How an engine reports a call on a closed handle
  (a panic, as Pebble does, or an error return, as Badger's \<^verbatim>\<open>Update\<close> and \<^verbatim>\<open>View\<close> do) is the
  field \<open>when_closed\<close> of the engine state; faults of the backend are injected through
  the fields \<open>io_fault\<close>, \<open>iter_fault\<close> and \<open>bad_values\<close>.
\<close>

type_synonym store = "(bytes \<times> bytes) list"

fun bytes_lt :: "bytes \<Rightarrow> bytes \<Rightarrow> bool" where
  "bytes_lt [] [] = False"
| "bytes_lt [] (y # ys) = True"
| "bytes_lt (x # xs) [] = False"
| "bytes_lt (x # xs) (y # ys) = (x < y \<or> (x = y \<and> bytes_lt xs ys))"

fun kv_put :: "bytes \<Rightarrow> bytes \<Rightarrow> store \<Rightarrow> store" where
  "kv_put k v [] = [(k, v)]"
| "kv_put k v ((k', v') # m) =
     (if k = k' then (k, v) # m
      else if bytes_lt k k' then (k, v) # (k', v') # m
      else (k', v') # kv_put k v m)"

fun kv_del :: "bytes \<Rightarrow> store \<Rightarrow> store" where
  "kv_del k [] = []"
| "kv_del k ((k', v') # m) = (if k = k' then kv_del k m else (k', v') # kv_del k m)"

datatype batch_op = OpSet bytes bytes | OpDelete bytes

fun apply_op :: "batch_op \<Rightarrow> store \<Rightarrow> store" where
  "apply_op (OpSet k v) m = kv_put k v m"
| "apply_op (OpDelete k) m = kv_del k m"

fun apply_ops :: "batch_op list \<Rightarrow> store \<Rightarrow> store" where
  "apply_ops [] m = m"
| "apply_ops (x # xs) m = apply_ops xs (apply_op x m)"

datatype closed_policy = ClosedPanics | ClosedErrors

record engine_db =
  mem :: store
  closed :: bool
  when_closed :: closed_policy
  io_fault :: error
  iter_fault :: error
  bad_values :: "bytes list"
  pins :: nat

record engine_batch =
  ops :: "batch_op list"
  committed :: bool

record engine_iter =
  snapshot :: store
  todo :: store
  cur :: "(bytes \<times> bytes) option"
  unreadable :: "bytes list"
  it_closed :: bool

definition ErrClosed :: go_error where
  "ErrClosed = EngineError ''closed''"

definition ErrNotFound :: go_error where
  "ErrNotFound = EngineError ''not found''"

definition ErrBatchDone :: go_error where
  "ErrBatchDone = EngineError ''batch already committed''"

definition ErrValue :: go_error where
  "ErrValue = EngineError ''value cannot be read''"

definition on_closed :: "engine_db \<Rightarrow> 'a \<Rightarrow> 'a outcome" where
  "on_closed d r =
     (case when_closed d of ClosedPanics \<Rightarrow> Panic (EnginePanic ErrClosed) | ClosedErrors \<Rightarrow> Return r)"

definition open_engine :: "closed_policy \<Rightarrow> engine_db" where
  "open_engine pol =
     \<lparr>mem = [], closed = False, when_closed = pol, io_fault = None, iter_fault = None,
      bad_values = [], pins = 0\<rparr>"

subsection \<open>Pebble primitives\<close>

text \<open>
  Modelled from the spec: the primitives of the Pebble library that the adapter calls
  (\<^verbatim>\<open>Set\<close>, \<^verbatim>\<open>Get\<close>, \<^verbatim>\<open>Delete\<close>, \<^verbatim>\<open>Close\<close>, \<^verbatim>\<open>NewBatch\<close>, the batch's \<^verbatim>\<open>Set\<close>/\<^verbatim>\<open>Delete\<close>/\<^verbatim>\<open>Commit\<close>,
  \<^verbatim>\<open>NewIter\<close>, the iterator's \<^verbatim>\<open>First\<close>/\<^verbatim>\<open>Next\<close>/\<^verbatim>\<open>Key\<close>/\<^verbatim>\<open>ValueAndErr\<close>/\<^verbatim>\<open>Close\<close>); the library
  is not part of the repository. A committed batch panics when it is used again, as
  the adapter's test \<^verbatim>\<open>TestPebbleBatchOperations\<close> asserts.
\<close>

datatype write_options = Sync | NoSync

datatype closer = Closer

record iter_options =
  LowerBound :: bytes
  UpperBound :: bytes

definition pebble_Set :: "engine_db \<Rightarrow> bytes \<Rightarrow> bytes \<Rightarrow> write_options \<Rightarrow> error outcome \<times> engine_db" where
  "pebble_Set d k v opt =
     (if closed d then (on_closed d (Some ErrClosed), d)
      else case io_fault d of
             Some e \<Rightarrow> (Return (Some e), d)
           | None \<Rightarrow> (Return None, d\<lparr>mem := kv_put k v (mem d)\<rparr>))"

definition pebble_Delete :: "engine_db \<Rightarrow> bytes \<Rightarrow> write_options \<Rightarrow> error outcome \<times> engine_db" where
  "pebble_Delete d k opt =
     (if closed d then (on_closed d (Some ErrClosed), d)
      else case io_fault d of
             Some e \<Rightarrow> (Return (Some e), d)
           | None \<Rightarrow> (Return None, d\<lparr>mem := kv_del k (mem d)\<rparr>))"

text \<open>
  \<^verbatim>\<open>db.Get\<close> returns the value as a slice of engine memory together with a closer; the slice
  is guarded only until the closer is closed.
\<close>

definition pebble_Get :: "engine_db \<Rightarrow> bytes \<Rightarrow> (go_error + slice \<times> closer) outcome \<times> engine_db" where
  "pebble_Get d k =
     (if closed d then (on_closed d (Inl ErrClosed), d)
      else case io_fault d of
             Some e \<Rightarrow> (Return (Inl e), d)
           | None \<Rightarrow>
               (case map_of (mem d) k of
                  None \<Rightarrow> (Return (Inl ErrNotFound), d)
                | Some v \<Rightarrow> (Return (Inr (Slice Engine v, Closer)), d\<lparr>pins := Suc (pins d)\<rparr>)))"

definition closer_Close :: "closer \<Rightarrow> engine_db \<Rightarrow> engine_db" where
  "closer_Close c d = d\<lparr>pins := pins d - 1\<rparr>"


definition pebble_NewBatch :: "engine_db \<Rightarrow> engine_batch" where
  "pebble_NewBatch d = \<lparr>ops = [], committed = False\<rparr>"

definition pebble_Batch_Set ::
  "engine_batch \<Rightarrow> bytes \<Rightarrow> bytes \<Rightarrow> write_options \<Rightarrow> engine_db \<Rightarrow> error outcome \<times> engine_batch \<times> engine_db" where
  "pebble_Batch_Set b k v opt d =
     (if committed b then (Panic (EnginePanic ErrBatchDone), b, d)
      else (Return None, b\<lparr>ops := ops b @ [OpSet k v]\<rparr>, d))"

definition pebble_Batch_Delete ::
  "engine_batch \<Rightarrow> bytes \<Rightarrow> write_options \<Rightarrow> engine_db \<Rightarrow> error outcome \<times> engine_batch \<times> engine_db" where
  "pebble_Batch_Delete b k opt d =
     (if committed b then (Panic (EnginePanic ErrBatchDone), b, d)
      else (Return None, b\<lparr>ops := ops b @ [OpDelete k]\<rparr>, d))"

definition pebble_Batch_Commit ::
  "engine_batch \<Rightarrow> write_options \<Rightarrow> engine_db \<Rightarrow> error outcome \<times> engine_batch \<times> engine_db" where
  "pebble_Batch_Commit b opt d =
     (if committed b then (Panic (EnginePanic ErrBatchDone), b, d)
      else if closed d then (on_closed d (Some ErrClosed), b, d)
      else case io_fault d of
             Some e \<Rightarrow> (Return (Some e), b, d)
           | None \<Rightarrow> (Return None, b\<lparr>committed := True\<rparr>, d\<lparr>mem := apply_ops (ops b) (mem d)\<rparr>))"

definition in_bounds :: "iter_options \<Rightarrow> bytes \<times> bytes \<Rightarrow> bool" where
  "in_bounds opts kv = (\<not> bytes_lt (fst kv) (LowerBound opts) \<and> bytes_lt (fst kv) (UpperBound opts))"

definition pebble_NewIter :: "engine_db \<Rightarrow> iter_options \<Rightarrow> (go_error + engine_iter) outcome \<times> engine_db" where
  "pebble_NewIter d opts =
     (if closed d then (on_closed d (Inl ErrClosed), d)
      else case iter_fault d of
             Some e \<Rightarrow> (Return (Inl e), d)
           | None \<Rightarrow>
               (Return (Inr \<lparr>snapshot = filter (in_bounds opts) (mem d), todo = [], cur = None,
                             unreadable = bad_values d, it_closed = False\<rparr>), d))"

definition iter_seek :: "store \<Rightarrow> engine_iter \<Rightarrow> bool \<times> engine_iter" where
  "iter_seek xs it =
     (case xs of
        [] \<Rightarrow> (False, it\<lparr>todo := [], cur := None\<rparr>)
      | x # rest \<Rightarrow> (True, it\<lparr>todo := rest, cur := Some x\<rparr>))"

definition pebble_Iter_First :: "engine_iter \<Rightarrow> bool \<times> engine_iter" where
  "pebble_Iter_First it = iter_seek (snapshot it) it"

definition pebble_Iter_Next :: "engine_iter \<Rightarrow> bool \<times> engine_iter" where
  "pebble_Iter_Next it = iter_seek (todo it) it"

definition pebble_Iter_Key :: "engine_iter \<Rightarrow> slice" where
  "pebble_Iter_Key it = (case cur it of None \<Rightarrow> NilSlice | Some kv \<Rightarrow> Slice Engine (fst kv))"

definition pebble_Iter_ValueAndErr :: "engine_iter \<Rightarrow> slice \<times> error" where
  "pebble_Iter_ValueAndErr it =
     (case cur it of
        None \<Rightarrow> (NilSlice, None)
      | Some kv \<Rightarrow>
          if fst kv \<in> set (unreadable it) then (NilSlice, Some ErrValue)
          else (Slice Engine (snd kv), None))"

definition iter_Close :: "engine_iter \<Rightarrow> engine_iter" where
  "iter_Close it = it\<lparr>it_closed := True\<rparr>"

subsection \<open>Badger primitives\<close>

text \<open>
  Modelled from the spec: the primitives of the Badger library that the adapter calls
  (\<^verbatim>\<open>Update\<close>, \<^verbatim>\<open>View\<close>, the transaction's \<^verbatim>\<open>Set\<close>/\<^verbatim>\<open>Get\<close>/\<^verbatim>\<open>Delete\<close>/\<^verbatim>\<open>NewIterator\<close>, the item's
  \<^verbatim>\<open>Value\<close>/\<^verbatim>\<open>KeyCopy\<close>/\<^verbatim>\<open>ValueCopy\<close>, \<^verbatim>\<open>NewWriteBatch\<close> and the write batch's
  \<^verbatim>\<open>Set\<close>/\<^verbatim>\<open>Delete\<close>/\<^verbatim>\<open>Flush\<close>, the iterator's \<^verbatim>\<open>Rewind\<close>/\<^verbatim>\<open>Next\<close>/\<^verbatim>\<open>Valid\<close>/\<^verbatim>\<open>Item\<close>/\<^verbatim>\<open>Close\<close>); the
  library is not part of the repository. A flushed write batch returns an error when it
  is used again, as the adapter's test \<^verbatim>\<open>TestBadgerBatchOperations\<close> asserts. A write batch
  is taken to fit into one engine transaction. A transaction can still be created on a
  closed database and remembers that the database is closed (\<open>db_closed\<close>);
  \<^verbatim>\<open>NewIterator\<close> on such a transaction panics, whatever \<open>when_closed\<close> says.
\<close>

record engine_txn =
  view :: store
  writes :: "batch_op list"
  update :: bool
  txn_bad :: "bytes list"
  db_closed :: bool

datatype engine_item = Item bytes bytes bool

record badger_iter_options =
  Prefix :: bytes
  PrefetchValues :: bool

definition ErrReadOnlyTxn :: go_error where
  "ErrReadOnlyTxn = EngineError ''read-only transaction''"

definition badger_NewTransaction :: "engine_db \<Rightarrow> bool \<Rightarrow> engine_txn" where
  "badger_NewTransaction d upd =
     \<lparr>view = mem d, writes = [], update = upd, txn_bad = bad_values d, db_closed = closed d\<rparr>"

definition badger_Txn_Set :: "engine_txn \<Rightarrow> bytes \<Rightarrow> bytes \<Rightarrow> error \<times> engine_txn" where
  "badger_Txn_Set t k v =
     (if update t then (None, t\<lparr>writes := writes t @ [OpSet k v]\<rparr>)
      else (Some ErrReadOnlyTxn, t))"

definition badger_Txn_Delete :: "engine_txn \<Rightarrow> bytes \<Rightarrow> error \<times> engine_txn" where
  "badger_Txn_Delete t k =
     (if update t then (None, t\<lparr>writes := writes t @ [OpDelete k]\<rparr>)
      else (Some ErrReadOnlyTxn, t))"

definition badger_Txn_Get :: "engine_txn \<Rightarrow> bytes \<Rightarrow> go_error + engine_item" where
  "badger_Txn_Get t k =
     (case map_of (apply_ops (writes t) (view t)) k of
        None \<Rightarrow> Inl ErrNotFound
      | Some v \<Rightarrow> Inr (Item k v True))"

text \<open>
  The third component of an item says whether its value can be read.
  \<^verbatim>\<open>item.Value(fn)\<close> hands the callback a slice of engine memory that is guarded only while
  the callback runs; \<open>c\<close> is the variable the callback has captured.
\<close>

fun badger_Item_Value :: "engine_item \<Rightarrow> (slice \<Rightarrow> 'c \<Rightarrow> error \<times> 'c) \<Rightarrow> 'c \<Rightarrow> error \<times> 'c" where
  "badger_Item_Value (Item k v ok) fn c = (if ok then fn (Slice Engine v) c else (Some ErrValue, c))"

definition badger_Txn_Commit :: "engine_txn \<Rightarrow> engine_db \<Rightarrow> error outcome \<times> engine_db" where
  "badger_Txn_Commit t d =
     (case io_fault d of
        Some e \<Rightarrow> (Return (Some e), d)
      | None \<Rightarrow> (Return None, d\<lparr>mem := apply_ops (writes t) (mem d)\<rparr>))"

text \<open>
  \<^verbatim>\<open>db.Update(fn)\<close> runs the closure in a read-write transaction and commits it when the
  closure returns nil; \<^verbatim>\<open>db.View(fn)\<close> runs it in a read-only one and relays its error.
\<close>

definition badger_Update :: "engine_db \<Rightarrow> (engine_txn \<Rightarrow> error \<times> engine_txn) \<Rightarrow> error outcome \<times> engine_db" where
  "badger_Update d fn =
     (if closed d then (on_closed d (Some ErrClosed), d)
      else case fn (badger_NewTransaction d True) of
             (Some e, t) \<Rightarrow> (Return (Some e), d)
           | (None, t) \<Rightarrow> badger_Txn_Commit t d)"

definition badger_View ::
  "engine_db \<Rightarrow> (engine_txn \<Rightarrow> 'c \<Rightarrow> error \<times> 'c) \<Rightarrow> 'c \<Rightarrow> (error \<times> 'c) outcome \<times> engine_db" where
  "badger_View d fn c =
     (if closed d then (on_closed d (Some ErrClosed, c), d)
      else (Return (fn (badger_NewTransaction d False) c), d))"


definition badger_NewWriteBatch :: "engine_db \<Rightarrow> engine_batch" where
  "badger_NewWriteBatch d = \<lparr>ops = [], committed = False\<rparr>"

definition badger_WB_Set ::
  "engine_batch \<Rightarrow> bytes \<Rightarrow> bytes \<Rightarrow> engine_db \<Rightarrow> error outcome \<times> engine_batch \<times> engine_db" where
  "badger_WB_Set b k v d =
     (if committed b then (Return (Some ErrBatchDone), b, d)
      else (Return None, b\<lparr>ops := ops b @ [OpSet k v]\<rparr>, d))"

definition badger_WB_Delete ::
  "engine_batch \<Rightarrow> bytes \<Rightarrow> engine_db \<Rightarrow> error outcome \<times> engine_batch \<times> engine_db" where
  "badger_WB_Delete b k d =
     (if committed b then (Return (Some ErrBatchDone), b, d)
      else (Return None, b\<lparr>ops := ops b @ [OpDelete k]\<rparr>, d))"

definition badger_WB_Flush ::
  "engine_batch \<Rightarrow> engine_db \<Rightarrow> error outcome \<times> engine_batch \<times> engine_db" where
  "badger_WB_Flush b d =
     (if committed b then (Return (Some ErrBatchDone), b, d)
      else if closed d then (on_closed d (Some ErrClosed), b, d)
      else case io_fault d of
             Some e \<Rightarrow> (Return (Some e), b, d)
           | None \<Rightarrow> (Return None, b\<lparr>committed := True\<rparr>, d\<lparr>mem := apply_ops (ops b) (mem d)\<rparr>))"

definition has_prefix :: "bytes \<Rightarrow> bytes \<times> bytes \<Rightarrow> bool" where
  "has_prefix pre kv = (take (length pre) (fst kv) = pre)"

definition badger_Txn_NewIterator :: "engine_txn \<Rightarrow> badger_iter_options \<Rightarrow> engine_iter outcome" where
  "badger_Txn_NewIterator t opts =
     (if db_closed t then Panic (EnginePanic ErrClosed)
      else Return \<lparr>snapshot = filter (has_prefix (Prefix opts)) (view t), todo = [], cur = None,
                   unreadable = txn_bad t, it_closed = False\<rparr>)"

definition badger_Iter_Rewind :: "engine_iter \<Rightarrow> engine_iter" where
  "badger_Iter_Rewind it = snd (iter_seek (snapshot it) it)"

definition badger_Iter_Next :: "engine_iter \<Rightarrow> engine_iter" where
  "badger_Iter_Next it = snd (iter_seek (todo it) it)"

definition badger_Iter_Valid :: "engine_iter \<Rightarrow> bool" where
  "badger_Iter_Valid it = (cur it \<noteq> None)"

definition badger_Iter_Item :: "engine_iter \<Rightarrow> engine_item option" where
  "badger_Iter_Item it =
     (case cur it of
        None \<Rightarrow> None
      | Some kv \<Rightarrow> Some (Item (fst kv) (snd kv) (fst kv \<notin> set (unreadable it))))"

fun badger_Item_KeyCopy :: "engine_item option \<Rightarrow> slice outcome" where
  "badger_Item_KeyCopy None = Panic NilDereference"
| "badger_Item_KeyCopy (Some (Item k v ok)) = Return (Slice Caller k)"

fun badger_Item_ValueCopy :: "engine_item option \<Rightarrow> (slice \<times> error) outcome" where
  "badger_Item_ValueCopy None = Panic NilDereference"
| "badger_Item_ValueCopy (Some (Item k v ok)) =
     (if ok then Return (Slice Caller v, None) else Return (NilSlice, Some ErrValue))"

section \<open>The PebbleDB adapter\<close>

record pebbleDB =
  db :: engine_db

record pebbleBatch =
  batch :: engine_batch

record pebbleIteractor =
  iteractor :: engine_iter
  started :: bool
  valid :: bool
  err :: "go_error list"

definition pebbleDB_Put :: "pebbleDB \<Rightarrow> context \<Rightarrow> bytes \<Rightarrow> bytes \<Rightarrow> error outcome \<times> pebbleDB" where
  "pebbleDB_Put p ctx key data =
     (case pebble_Set (db p) key data Sync of (r, d) \<Rightarrow> (r, p\<lparr>db := d\<rparr>))"

definition pebbleDB_Get :: "pebbleDB \<Rightarrow> context \<Rightarrow> bytes \<Rightarrow> (slice \<times> error) outcome \<times> pebbleDB" where
  "pebbleDB_Get p ctx key =
     (case pebble_Get (db p) key of
        (Panic x, d) \<Rightarrow> (Panic x, p\<lparr>db := d\<rparr>)
      | (Return (Inl e), d) \<Rightarrow> (Return (NilSlice, Some e), p\<lparr>db := d\<rparr>)
      | (Return (Inr (val, c)), d) \<Rightarrow> (Return (val, None), p\<lparr>db := closer_Close c d\<rparr>))"

definition pebbleDB_Delete :: "pebbleDB \<Rightarrow> context \<Rightarrow> bytes \<Rightarrow> error outcome \<times> pebbleDB" where
  "pebbleDB_Delete p ctx key =
     (case pebble_Delete (db p) key Sync of (r, d) \<Rightarrow> (r, p\<lparr>db := d\<rparr>))"


definition pebbleDB_Batch :: "pebbleDB \<Rightarrow> pebbleBatch" where
  "pebbleDB_Batch p = \<lparr>batch = pebble_NewBatch (db p)\<rparr>"

definition pebbleBatch_Put ::
  "pebbleBatch \<Rightarrow> bytes \<Rightarrow> bytes \<Rightarrow> pebbleDB \<Rightarrow> error outcome \<times> pebbleBatch \<times> pebbleDB" where
  "pebbleBatch_Put b key data p =
     (case pebble_Batch_Set (batch b) key data NoSync (db p) of
        (r, eb, d) \<Rightarrow> (r, b\<lparr>batch := eb\<rparr>, p\<lparr>db := d\<rparr>))"

definition pebbleBatch_Delete ::
  "pebbleBatch \<Rightarrow> bytes \<Rightarrow> pebbleDB \<Rightarrow> error outcome \<times> pebbleBatch \<times> pebbleDB" where
  "pebbleBatch_Delete b key p =
     (case pebble_Batch_Delete (batch b) key NoSync (db p) of
        (r, eb, d) \<Rightarrow> (r, b\<lparr>batch := eb\<rparr>, p\<lparr>db := d\<rparr>))"

definition pebbleBatch_Commit ::
  "pebbleBatch \<Rightarrow> context \<Rightarrow> pebbleDB \<Rightarrow> error outcome \<times> pebbleBatch \<times> pebbleDB" where
  "pebbleBatch_Commit b ctx p =
     (case pebble_Batch_Commit (batch b) Sync (db p) of
        (r, eb, d) \<Rightarrow> (r, b\<lparr>batch := eb\<rparr>, p\<lparr>db := d\<rparr>))"

text \<open>
  \<^verbatim>\<open>Scan\<close> copies the prefix, increments the last byte of the copy in place
  (\<^verbatim>\<open>upbound[len(upbound)-1]++\<close>) and asks the engine for an iterator between the two
  bounds. A failing iterator constructor makes it return \<^verbatim>\<open>nil\<close> (\<open>None\<close>).
\<close>

definition pebbleDB_Scan :: "pebbleDB \<Rightarrow> bytes \<Rightarrow> pebbleIteractor option outcome \<times> pebbleDB" where
  "pebbleDB_Scan p prefix =
     (case incr_at prefix (int (length prefix) - 1) of
        Panic x \<Rightarrow> (Panic x, p)
      | Return upbound \<Rightarrow>
          (case pebble_NewIter (db p) \<lparr>LowerBound = prefix, UpperBound = upbound\<rparr> of
             (Panic x, d) \<Rightarrow> (Panic x, p\<lparr>db := d\<rparr>)
           | (Return (Inl e), d) \<Rightarrow> (Return None, p\<lparr>db := d\<rparr>)
           | (Return (Inr it), d) \<Rightarrow>
               (Return (Some \<lparr>iteractor = it, started = False, valid = False, err = []\<rparr>),
                p\<lparr>db := d\<rparr>)))"

definition pebbleIteractor_Next :: "pebbleIteractor \<Rightarrow> bool \<times> pebbleIteractor" where
  "pebbleIteractor_Next it =
     (if \<not> started it then
        (case pebble_Iter_First (iteractor it) of
           (ok, ei) \<Rightarrow> (ok, it\<lparr>iteractor := ei, valid := ok, started := True\<rparr>))
      else
        (case pebble_Iter_Next (iteractor it) of
           (ok, ei) \<Rightarrow> (ok, it\<lparr>iteractor := ei, valid := ok\<rparr>)))"

definition pebbleIteractor_Key :: "pebbleIteractor \<Rightarrow> slice" where
  "pebbleIteractor_Key it =
     (if \<not> valid it then NilSlice else pebble_Iter_Key (iteractor it))"

definition pebbleIteractor_Value :: "pebbleIteractor \<Rightarrow> slice \<times> pebbleIteractor" where
  "pebbleIteractor_Value it =
     (if \<not> valid it then (NilSlice, it)
      else case pebble_Iter_ValueAndErr (iteractor it) of
             (data, Some e) \<Rightarrow> (NilSlice, it\<lparr>err := err it @ [e]\<rparr>)
           | (data, None) \<Rightarrow> (data, it))"

definition pebbleIteractor_Release :: "pebbleIteractor \<Rightarrow> pebbleIteractor" where
  "pebbleIteractor_Release it = it\<lparr>valid := False, iteractor := iter_Close (iteractor it)\<rparr>"

definition pebbleIteractor_Error :: "pebbleIteractor \<Rightarrow> go_error outcome" where
  "pebbleIteractor_Error it = index_at (err it) (int (length (err it)) - 1)"

section \<open>The BadgerDB adapter\<close>

record badgerDB =
  db :: engine_db

record badgerBatch =
  batch :: engine_batch

record badgerIteractor =
  iteractor :: engine_iter
  started :: bool
  valid :: bool
  err :: "go_error list"

definition badgerDB_Put :: "badgerDB \<Rightarrow> context \<Rightarrow> bytes \<Rightarrow> bytes \<Rightarrow> error outcome \<times> badgerDB" where
  "badgerDB_Put b ctx key val =
     (case badger_Update (db b) (\<lambda>txn. badger_Txn_Set txn key val) of (r, d) \<Rightarrow> (r, b\<lparr>db := d\<rparr>))"

definition badgerDB_Get :: "badgerDB \<Rightarrow> context \<Rightarrow> bytes \<Rightarrow> (slice \<times> error) outcome \<times> badgerDB" where
  "badgerDB_Get b ctx key =
     (case ctx_Err ctx of
        Some e \<Rightarrow> (Return (NilSlice, Some e), b)
      | None \<Rightarrow>
          (case badger_View (db b)
                  (\<lambda>txn data.
                      case badger_Txn_Get txn key of
                        Inl e \<Rightarrow> (Some e, data)
                      | Inr item \<Rightarrow> badger_Item_Value item (\<lambda>val data. (None, append_copy val)) data)
                  NilSlice of
             (Panic x, d) \<Rightarrow> (Panic x, b\<lparr>db := d\<rparr>)
           | (Return (e, data), d) \<Rightarrow> (Return (data, e), b\<lparr>db := d\<rparr>)))"

definition badgerDB_Delete :: "badgerDB \<Rightarrow> context \<Rightarrow> bytes \<Rightarrow> error outcome \<times> badgerDB" where
  "badgerDB_Delete b ctx key =
     (case ctx_Err ctx of
        Some e \<Rightarrow> (Return (Some e), b)
      | None \<Rightarrow>
          (case badger_Update (db b) (\<lambda>txn. badger_Txn_Delete txn key) of
             (r, d) \<Rightarrow> (r, b\<lparr>db := d\<rparr>)))"


definition badgerDB_Batch :: "badgerDB \<Rightarrow> badgerBatch" where
  "badgerDB_Batch b = \<lparr>batch = badger_NewWriteBatch (db b)\<rparr>"

definition badgerBatch_Put ::
  "badgerBatch \<Rightarrow> bytes \<Rightarrow> bytes \<Rightarrow> badgerDB \<Rightarrow> error outcome \<times> badgerBatch \<times> badgerDB" where
  "badgerBatch_Put b key val core =
     (case badger_WB_Set (batch b) key val (db core) of
        (r, eb, d) \<Rightarrow> (r, b\<lparr>batch := eb\<rparr>, core\<lparr>db := d\<rparr>))"

definition badgerBatch_Delete ::
  "badgerBatch \<Rightarrow> bytes \<Rightarrow> badgerDB \<Rightarrow> error outcome \<times> badgerBatch \<times> badgerDB" where
  "badgerBatch_Delete b key core =
     (case badger_WB_Delete (batch b) key (db core) of
        (r, eb, d) \<Rightarrow> (r, b\<lparr>batch := eb\<rparr>, core\<lparr>db := d\<rparr>))"

definition badgerBatch_Commit ::
  "badgerBatch \<Rightarrow> context \<Rightarrow> badgerDB \<Rightarrow> error outcome \<times> badgerBatch \<times> badgerDB" where
  "badgerBatch_Commit b ctx core =
     (case ctx_Err ctx of
        Some e \<Rightarrow> (Return (Some e), b, core)
      | None \<Rightarrow>
          (case badger_WB_Flush (batch b) (db core) of
             (r, eb, d) \<Rightarrow> (r, b\<lparr>batch := eb\<rparr>, core\<lparr>db := d\<rparr>)))"

text \<open>
  \<^verbatim>\<open>Scan\<close> hands the prefix to the engine's iterator options; it derives no bound. It has no
  error result: what it returns is an iterator, unless the engine panics.
\<close>

definition badgerDB_Scan :: "badgerDB \<Rightarrow> bytes \<Rightarrow> badgerIteractor outcome" where
  "badgerDB_Scan b prefix =
     (let txn = badger_NewTransaction (db b) False
      in case badger_Txn_NewIterator txn \<lparr>Prefix = prefix, PrefetchValues = True\<rparr> of
           Panic x \<Rightarrow> Panic x
         | Return it \<Rightarrow> Return \<lparr>iteractor = it, started = False, valid = False, err = []\<rparr>)"

definition badgerIteractor_Next :: "badgerIteractor \<Rightarrow> bool \<times> badgerIteractor" where
  "badgerIteractor_Next it =
     (let it1 = (if \<not> started it
                 then it\<lparr>iteractor := badger_Iter_Rewind (iteractor it), started := True\<rparr>
                 else it\<lparr>iteractor := badger_Iter_Next (iteractor it)\<rparr>);
          it2 = it1\<lparr>valid := badger_Iter_Valid (iteractor it1)\<rparr>
      in (valid it2, it2))"

definition badgerIteractor_Key :: "badgerIteractor \<Rightarrow> slice outcome" where
  "badgerIteractor_Key it =
     (if \<not> valid it then Return NilSlice
      else badger_Item_KeyCopy (badger_Iter_Item (iteractor it)))"

definition badgerIteractor_Value :: "badgerIteractor \<Rightarrow> slice outcome \<times> badgerIteractor" where
  "badgerIteractor_Value it =
     (if \<not> valid it then (Return NilSlice, it)
      else case badger_Item_ValueCopy (badger_Iter_Item (iteractor it)) of
             Panic x \<Rightarrow> (Panic x, it)
           | Return (data, Some e) \<Rightarrow> (Return (Slice Caller []), it\<lparr>err := err it @ [e]\<rparr>)
           | Return (data, None) \<Rightarrow> (Return data, it))"

definition badgerIteractor_Release :: "badgerIteractor \<Rightarrow> badgerIteractor" where
  "badgerIteractor_Release it = it\<lparr>iteractor := iter_Close (iteractor it)\<rparr>"

definition badgerIteractor_Error :: "badgerIteractor \<Rightarrow> go_error outcome" where
  "badgerIteractor_Error it = index_at (err it) (int (length (err it)) - 1)"

section \<open>Protocol states, interface calls and example stores\<close>

text \<open>
  The states of the traversal protocol as the adapters' flags encode them: an iterator is
  positioned while \<open>valid\<close> holds, which is what the last \<^verbatim>\<open>Next\<close> returned; before the first
  \<^verbatim>\<open>Next\<close> it has not started; otherwise it is exhausted.
\<close>

datatype iter_state = NotStarted | Positioned | Exhausted

definition pebble_iter_state :: "pebbleIteractor \<Rightarrow> iter_state" where
  "pebble_iter_state it =
     (if pebbleIteractor.valid it then Positioned
      else if pebbleIteractor.started it then Exhausted else NotStarted)"

definition badger_iter_state :: "badgerIteractor \<Rightarrow> iter_state" where
  "badger_iter_state it =
     (if valid it then Positioned else if started it then Exhausted else NotStarted)"

text \<open>
  A method call through the \<^verbatim>\<open>zerokv.Iterator\<close> interface value that the Pebble adapter's
  \<^verbatim>\<open>Scan\<close> returned: on the nil interface it is a runtime panic.
\<close>

definition Iterator_Next :: "pebbleIteractor option \<Rightarrow> (bool \<times> pebbleIteractor) outcome" where
  "Iterator_Next i =
     (case i of None \<Rightarrow> Panic NilDereference | Some it \<Rightarrow> Return (pebbleIteractor_Next it))"

definition Iterator_Release :: "pebbleIteractor option \<Rightarrow> pebbleIteractor outcome" where
  "Iterator_Release i =
     (case i of None \<Rightarrow> Panic NilDereference | Some it \<Rightarrow> Return (pebbleIteractor_Release it))"

text \<open>Queueing a list of key/value pairs on a batch, one \<^verbatim>\<open>Put\<close> after the other.\<close>

fun pebble_put_all :: "(bytes \<times> bytes) list \<Rightarrow> pebbleBatch \<Rightarrow> pebbleDB \<Rightarrow> bool \<times> pebbleBatch \<times> pebbleDB" where
  "pebble_put_all [] b p = (True, b, p)"
| "pebble_put_all (kv # kvs) b p =
     (case pebbleBatch_Put b (fst kv) (snd kv) p of
        (Return None, b', p') \<Rightarrow> pebble_put_all kvs b' p'
      | (r, b', p') \<Rightarrow> (False, b', p'))"

fun badger_put_all :: "(bytes \<times> bytes) list \<Rightarrow> badgerBatch \<Rightarrow> badgerDB \<Rightarrow> bool \<times> badgerBatch \<times> badgerDB" where
  "badger_put_all [] b c = (True, b, c)"
| "badger_put_all (kv # kvs) b c =
     (case badgerBatch_Put b (fst kv) (snd kv) c of
        (Return None, b', c') \<Rightarrow> badger_put_all kvs b' c'
      | (r, b', c') \<Rightarrow> (False, b', c'))"

definition sets_of :: "(bytes \<times> bytes) list \<Rightarrow> batch_op list" where
  "sets_of kvs = map (\<lambda>kv. OpSet (fst kv) (snd kv)) kvs"

text \<open>Concrete cores, batches and iterators on which the theorems are instantiated.\<close>

definition pebble_open :: "closed_policy \<Rightarrow> pebbleDB" where
  "pebble_open pol = \<lparr>pebbleDB.db = open_engine pol\<rparr>"

definition badger_open :: "closed_policy \<Rightarrow> badgerDB" where
  "badger_open pol = \<lparr>badgerDB.db = open_engine pol\<rparr>"



definition pebble_one :: pebbleDB where
  "pebble_one = \<lparr>pebbleDB.db = (open_engine ClosedPanics)\<lparr>mem := [([1], [2])]\<rparr>\<rparr>"

definition badger_one :: badgerDB where
  "badger_one = \<lparr>badgerDB.db = (open_engine ClosedPanics)\<lparr>mem := [([1], [2])]\<rparr>\<rparr>"

definition pebble_ff :: pebbleDB where
  "pebble_ff = \<lparr>pebbleDB.db = (open_engine ClosedPanics)\<lparr>mem := [([255, 1], [7])]\<rparr>\<rparr>"

definition badger_ff :: badgerDB where
  "badger_ff = \<lparr>badgerDB.db = (open_engine ClosedPanics)\<lparr>mem := [([255, 1], [7])]\<rparr>\<rparr>"

definition pebble_broken_iter :: pebbleDB where
  "pebble_broken_iter =
     \<lparr>pebbleDB.db = (open_engine ClosedPanics)\<lparr>iter_fault := Some (EngineError ''iterator'')\<rparr>\<rparr>"

definition fresh_pebble_iter :: pebbleIteractor where
  "fresh_pebble_iter =
     \<lparr>pebbleIteractor.iteractor =
        \<lparr>snapshot = [], todo = [], cur = None, unreadable = [], it_closed = False\<rparr>,
      started = False, valid = False, err = []\<rparr>"

definition fresh_badger_iter :: badgerIteractor where
  "fresh_badger_iter =
     \<lparr>badgerIteractor.iteractor =
        \<lparr>snapshot = [], todo = [], cur = None, unreadable = [], it_closed = False\<rparr>,
      started = False, valid = False, err = []\<rparr>"

definition demo_kvs :: "(bytes \<times> bytes) list" where
  "demo_kvs = [([1], [2]), ([3], [4])]"

definition demo_ops :: engine_batch where
  "demo_ops = \<lparr>ops = [OpSet [1] [2], OpSet [3] [4]], committed = False\<rparr>"

definition demo_mem :: engine_db where
  "demo_mem = (open_engine ClosedErrors)\<lparr>mem := [([1], [2]), ([3], [4])]\<rparr>"

definition pebble_one_put :: pebbleBatch where
  "pebble_one_put = \<lparr>pebbleBatch.batch = \<lparr>ops = [OpSet [1] [2]], committed = False\<rparr>\<rparr>"

definition badger_one_put :: badgerBatch where
  "badger_one_put = \<lparr>badgerBatch.batch = \<lparr>ops = [OpSet [1] [2]], committed = False\<rparr>\<rparr>"

definition pebble_done_batch :: pebbleBatch where
  "pebble_done_batch = \<lparr>pebbleBatch.batch = \<lparr>ops = [OpSet [1] [2]], committed = True\<rparr>\<rparr>"

definition badger_done_batch :: badgerBatch where
  "badger_done_batch = \<lparr>badgerBatch.batch = \<lparr>ops = [OpSet [1] [2]], committed = True\<rparr>\<rparr>"

section \<open>Facts about the store and about the helpers\<close>

lemma map_of_kv_put: "map_of (kv_put k v m) = (map_of m)(k \<mapsto> v)"
  by (induction m) auto

lemma map_of_kv_del: "map_of (kv_del k m) = (map_of m)(k := None)"
  by (induction m) (auto simp add: fun_eq_iff)

lemma map_of_apply_sets:
  "map_of (apply_ops (sets_of kvs) m) k =
     (case map_of (rev kvs) k of Some v \<Rightarrow> Some v | None \<Rightarrow> map_of m k)"
proof (induction kvs arbitrary: m)
  case Nil
  then show ?case by (simp add: sets_of_def)
next
  case (Cons kv kvs)
  have "map_of (apply_ops (sets_of (kv # kvs)) m) k
          = map_of (apply_ops (sets_of kvs) (kv_put (fst kv) (snd kv) m)) k"
    by (simp add: sets_of_def)
  also have "\<dots> = (case map_of (rev kvs) k of Some v \<Rightarrow> Some v
                     | None \<Rightarrow> ((map_of m)(fst kv \<mapsto> snd kv)) k)"
    by (simp add: Cons.IH map_of_kv_put split: option.splits)
  finally show ?case
    by (simp add: map_add_def split: option.splits)
qed

lemma incr_at_last:
  assumes "prefix \<noteq> []"
  shows "incr_at prefix (int (length prefix) - 1) = Return (butlast prefix @ [last prefix + 1])"
proof -
  from assms obtain ys y where p: "prefix = ys @ [y]"
    by (metis append_butlast_last_id)
  show ?thesis
    by (simp add: incr_at_def p)
qed




lemma scan_open_pebble:
  "fst (pebbleDB_Scan (pebble_open pol) [1]) = Return (Some fresh_pebble_iter)"
  by (simp add: pebbleDB_Scan_def incr_at_def pebble_NewIter_def pebble_open_def open_engine_def
      fresh_pebble_iter_def)

lemma scan_open_badger:
  "badgerDB_Scan (badger_open pol) [1] = Return fresh_badger_iter"
  by (simp add: badgerDB_Scan_def badger_NewTransaction_def badger_Txn_NewIterator_def
      badger_open_def open_engine_def fresh_badger_iter_def)

section \<open>Batches\<close>

lemma pebble_put_all_open:
  "\<not> committed (pebbleBatch.batch b) \<Longrightarrow>
   pebble_put_all kvs b p =
     (True, \<lparr>pebbleBatch.batch = \<lparr>ops = ops (pebbleBatch.batch b) @ sets_of kvs, committed = False\<rparr>\<rparr>, p)"
proof (induction kvs arbitrary: b)
  case Nil
  then show ?case by (simp add: sets_of_def)
next
  case (Cons kv kvs)
  then show ?case
    by (simp add: pebbleBatch_Put_def pebble_Batch_Set_def sets_of_def)
qed

lemma badger_put_all_open:
  "\<not> committed (batch b) \<Longrightarrow>
   badger_put_all kvs b c =
     (True, \<lparr>batch = \<lparr>ops = ops (batch b) @ sets_of kvs, committed = False\<rparr>\<rparr>, c)"
proof (induction kvs arbitrary: b)
  case Nil
  then show ?case by (simp add: sets_of_def)
next
  case (Cons kv kvs)
  then show ?case
    by (simp add: badgerBatch_Put_def badger_WB_Set_def sets_of_def)
qed

lemma apply_ops_append: "apply_ops (xs @ ys) m = apply_ops ys (apply_ops xs m)"
  by (induction xs arbitrary: m) auto

lemma new_batch_uncommitted:
  "\<not> committed (pebbleBatch.batch (pebbleDB_Batch p))"
  "\<not> committed (batch (badgerDB_Batch c))"
  by (simp_all add: pebbleDB_Batch_def pebble_NewBatch_def badgerDB_Batch_def
      badger_NewWriteBatch_def)

lemma pebble_batch_visibility:
  assumes "\<not> committed (pebbleBatch.batch b0)"
      and "pebble_put_all kvs b0 p = (ok, b1, p1)"
  shows "ok" and "p1 = p"
    and "pebbleBatch_Commit b1 ctx p1 = (Return None, b2, p2) \<Longrightarrow> map_of (rev kvs) k = Some v \<Longrightarrow>
         fst (pebbleDB_Get p2 ctx' k) = Return (Slice Engine v, None)"
    and "fst (pebbleBatch_Commit b1 ctx p1) \<noteq> Return None \<Longrightarrow>
         snd (snd (pebbleBatch_Commit b1 ctx p1)) = p1"
proof -
  note q = pebble_put_all_open [OF assms(1), of kvs p]
  with assms(2) show "ok" and "p1 = p" by simp_all
  from q assms(2)
  have b1: "b1 = \<lparr>pebbleBatch.batch =
                    \<lparr>ops = ops (pebbleBatch.batch b0) @ sets_of kvs, committed = False\<rparr>\<rparr>"
    by simp
  show "fst (pebbleDB_Get p2 ctx' k) = Return (Slice Engine v, None)"
    if "pebbleBatch_Commit b1 ctx p1 = (Return None, b2, p2)" and "map_of (rev kvs) k = Some v"
    using that
    by (auto simp add: b1 pebbleBatch_Commit_def pebble_Batch_Commit_def pebbleDB_Get_def
        pebble_Get_def on_closed_def map_of_apply_sets apply_ops_append
        split: if_splits option.splits closed_policy.splits)
  show "snd (snd (pebbleBatch_Commit b1 ctx p1)) = p1"
    if "fst (pebbleBatch_Commit b1 ctx p1) \<noteq> Return None"
    using that
    by (auto simp add: b1 pebbleBatch_Commit_def pebble_Batch_Commit_def on_closed_def
        split: if_splits option.splits closed_policy.splits)
qed

lemma badger_batch_visibility:
  assumes "\<not> committed (batch b0)"
      and "badger_put_all kvs b0 c = (ok, b1, c1)"
  shows "ok" and "c1 = c"
    and "badgerBatch_Commit b1 ctx c1 = (Return None, b2, c2) \<Longrightarrow> map_of (rev kvs) k = Some v \<Longrightarrow>
         fst (badgerDB_Get c2 ctx k) = Return (Slice Caller v, None)"
    and "fst (badgerBatch_Commit b1 ctx c1) \<noteq> Return None \<Longrightarrow>
         snd (snd (badgerBatch_Commit b1 ctx c1)) = c1"
proof -
  note q = badger_put_all_open [OF assms(1), of kvs c]
  with assms(2) show "ok" and "c1 = c" by simp_all
  from q assms(2)
  have b1: "b1 = \<lparr>batch = \<lparr>ops = ops (batch b0) @ sets_of kvs, committed = False\<rparr>\<rparr>"
    by simp
  show "fst (badgerDB_Get c2 ctx k) = Return (Slice Caller v, None)"
    if "badgerBatch_Commit b1 ctx c1 = (Return None, b2, c2)" and "map_of (rev kvs) k = Some v"
    using that
    by (auto simp add: b1 badgerBatch_Commit_def badger_WB_Flush_def badgerDB_Get_def
        badger_View_def badger_Txn_Get_def badger_NewTransaction_def append_copy_def
        on_closed_def map_of_apply_sets apply_ops_append
        split: if_splits option.splits closed_policy.splits)
  show "snd (snd (badgerBatch_Commit b1 ctx c1)) = c1"
    if "fst (badgerBatch_Commit b1 ctx c1) \<noteq> Return None"
    using that
    by (auto simp add: b1 badgerBatch_Commit_def badger_WB_Flush_def on_closed_def
        split: if_splits option.splits closed_policy.splits)
qed

text \<open>
  Claim C1, as stated, fails on the Pebble adapter: a batch with one queued \<^verbatim>\<open>Put\<close> is
  committed on an open core, \<^verbatim>\<open>Commit\<close> returns nil, and the next \<^verbatim>\<open>Put\<close> on the same batch
  panics instead of returning an error.
\<close>

theorem pebble_batch_reuse_panics:
  "pebbleBatch_Commit pebble_one_put Background (pebble_open ClosedPanics)
     = (Return None, pebble_done_batch, pebble_one)
   \<and> fst (pebbleBatch_Put pebble_done_batch [1] [2] pebble_one) = Panic (EnginePanic ErrBatchDone)"
  by (simp add: pebbleBatch_Commit_def pebble_Batch_Commit_def pebble_open_def open_engine_def
      pebble_one_put_def pebble_done_batch_def pebble_one_def pebbleBatch_Put_def
      pebble_Batch_Set_def)

text \<open>
  Claim C1, amended: once \<^verbatim>\<open>Commit\<close> has succeeded on a batch, every later \<^verbatim>\<open>Put\<close>, \<^verbatim>\<open>Delete\<close>
  or \<^verbatim>\<open>Commit\<close> on that batch fails and leaves the batch and the core as they are. The
  BadgerDB adapter returns a non-nil error; the PebbleDB adapter panics, because it hands
  the call to the engine's batch without a guard of its own.
\<close>

theorem committed_batch_rejects_reuse:
  "(badgerBatch_Commit wb ctx c = (Return None, wb', c') \<longrightarrow>
      (\<exists>e. badgerBatch_Put wb' k v c2 = (Return (Some e), wb', c2))
      \<and> (\<exists>e. badgerBatch_Delete wb' k c2 = (Return (Some e), wb', c2))
      \<and> (\<exists>e. badgerBatch_Commit wb' ctx2 c2 = (Return (Some e), wb', c2)))
   \<and> (pebbleBatch_Commit pb ctx p = (Return None, pb', p') \<longrightarrow>
      (\<exists>x. pebbleBatch_Put pb' k v p2 = (Panic x, pb', p2))
      \<and> (\<exists>x. pebbleBatch_Delete pb' k p2 = (Panic x, pb', p2))
      \<and> (\<exists>x. pebbleBatch_Commit pb' ctx2 p2 = (Panic x, pb', p2)))"
  by (auto simp add: badgerBatch_Commit_def badger_WB_Flush_def badgerBatch_Put_def
      badger_WB_Set_def badgerBatch_Delete_def badger_WB_Delete_def on_closed_def
      pebbleBatch_Commit_def pebble_Batch_Commit_def pebbleBatch_Put_def pebble_Batch_Set_def
      pebbleBatch_Delete_def pebble_Batch_Delete_def
      split: if_splits option.splits closed_policy.splits)

theorem committed_batch_rejects_reuse_witness:
  "badgerBatch_Commit badger_one_put Background (badger_open ClosedPanics)
     = (Return None, badger_done_batch, badger_one)
   \<and> pebbleBatch_Commit pebble_one_put Background (pebble_open ClosedPanics)
     = (Return None, pebble_done_batch, pebble_one)
   \<and> (\<exists>e. fst (badgerBatch_Put badger_done_batch [5] [6] badger_one) = Return (Some e))
   \<and> (\<exists>e. fst (badgerBatch_Delete badger_done_batch [5] badger_one) = Return (Some e))
   \<and> (\<exists>e. fst (badgerBatch_Commit badger_done_batch Background badger_one) = Return (Some e))
   \<and> (\<exists>x. fst (pebbleBatch_Put pebble_done_batch [5] [6] pebble_one) = Panic x)
   \<and> (\<exists>x. fst (pebbleBatch_Commit pebble_done_batch Background pebble_one) = Panic x)"
proof -
  have a: "badgerBatch_Commit badger_one_put Background (badger_open ClosedPanics)
             = (Return None, badger_done_batch, badger_one)"
    by (simp add: badgerBatch_Commit_def badger_WB_Flush_def badger_open_def open_engine_def
        badger_one_put_def badger_done_batch_def badger_one_def)
  have b: "pebbleBatch_Commit pebble_one_put Background (pebble_open ClosedPanics)
             = (Return None, pebble_done_batch, pebble_one)"
    by (simp add: pebbleBatch_Commit_def pebble_Batch_Commit_def pebble_open_def open_engine_def
        pebble_one_put_def pebble_done_batch_def pebble_one_def)
  from committed_batch_rejects_reuse
         [of badger_one_put Background "badger_open ClosedPanics" badger_done_batch badger_one
             "[5]" "[6]" badger_one Background
             pebble_one_put "pebble_open ClosedPanics" pebble_done_batch pebble_one pebble_one]
  show ?thesis using a b by auto
qed

text \<open>
  Claim C6: the writes queued with \<^verbatim>\<open>Batch.Put\<close> on an uncommitted batch (such as the one
  \<^verbatim>\<open>Batch()\<close> returns) are all accepted and leave every \<^verbatim>\<open>Get\<close> on the owning core as it was;
  when \<^verbatim>\<open>Commit\<close> then succeeds, every queued key reads back the last value queued for it;
  when \<^verbatim>\<open>Commit\<close> does not succeed, the core is unchanged, so none of them is visible.
  \<open>map_of (rev kvs) k = Some v\<close> says that \<open>v\<close> is the last value queued for \<open>k\<close>.
\<close>

theorem batch_all_or_nothing:
  assumes "\<not> committed (pebbleBatch.batch b0)"
      and "pebble_put_all kvs b0 p = (ok, b1, p1)"
      and "\<not> committed (batch wb0)"
      and "badger_put_all kvs wb0 c = (ok', wb1, c1)"
  shows "ok \<and> ok'
    \<and> pebbleDB_Get p1 ctx k = pebbleDB_Get p ctx k
    \<and> badgerDB_Get c1 ctx k = badgerDB_Get c ctx k
    \<and> (pebbleBatch_Commit b1 ctx p1 = (Return None, b2, p2) \<longrightarrow> map_of (rev kvs) k = Some v \<longrightarrow>
         (\<exists>s. fst (pebbleDB_Get p2 ctx' k) = Return (s, None) \<and> slice_bytes s = v))
    \<and> (badgerBatch_Commit wb1 ctx c1 = (Return None, wb2, c2) \<longrightarrow> map_of (rev kvs) k = Some v \<longrightarrow>
         (\<exists>s. fst (badgerDB_Get c2 ctx k) = Return (s, None) \<and> slice_bytes s = v))
    \<and> (fst (pebbleBatch_Commit b1 ctx p1) \<noteq> Return None \<longrightarrow>
         snd (snd (pebbleBatch_Commit b1 ctx p1)) = p1)
    \<and> (fst (badgerBatch_Commit wb1 ctx c1) \<noteq> Return None \<longrightarrow>
         snd (snd (badgerBatch_Commit wb1 ctx c1)) = c1)"
proof -
  note pv = pebble_batch_visibility [OF assms(1) assms(2)]
  note bv = badger_batch_visibility [OF assms(3) assms(4)]
  have "fst (pebbleDB_Get p2 ctx' k) = Return (Slice Engine v, None)"
    if "pebbleBatch_Commit b1 ctx p1 = (Return None, b2, p2)" and "map_of (rev kvs) k = Some v"
    using that by (rule pv(3))
  moreover have "fst (badgerDB_Get c2 ctx k) = Return (Slice Caller v, None)"
    if "badgerBatch_Commit wb1 ctx c1 = (Return None, wb2, c2)" and "map_of (rev kvs) k = Some v"
    using that by (rule bv(3))
  ultimately show ?thesis
    using pv(1) pv(2) bv(1) bv(2) pv(4) [of ctx] bv(4) [of ctx] by simp
qed

theorem batch_all_or_nothing_witness:
  "\<not> committed (pebbleBatch.batch (pebbleDB_Batch (pebble_open ClosedErrors)))
   \<and> \<not> committed (batch (badgerDB_Batch (badger_open ClosedErrors)))
   \<and> pebble_put_all demo_kvs (pebbleDB_Batch (pebble_open ClosedErrors)) (pebble_open ClosedErrors)
     = (True, \<lparr>pebbleBatch.batch = demo_ops\<rparr>, pebble_open ClosedErrors)
   \<and> badger_put_all demo_kvs (badgerDB_Batch (badger_open ClosedErrors)) (badger_open ClosedErrors)
     = (True, \<lparr>badgerBatch.batch = demo_ops\<rparr>, badger_open ClosedErrors)
   \<and> pebbleBatch_Commit \<lparr>pebbleBatch.batch = demo_ops\<rparr> Background (pebble_open ClosedErrors)
     = (Return None, \<lparr>pebbleBatch.batch = demo_ops\<lparr>committed := True\<rparr>\<rparr>, \<lparr>pebbleDB.db = demo_mem\<rparr>)
   \<and> badgerBatch_Commit \<lparr>badgerBatch.batch = demo_ops\<rparr> Background (badger_open ClosedErrors)
     = (Return None, \<lparr>badgerBatch.batch = demo_ops\<lparr>committed := True\<rparr>\<rparr>, \<lparr>badgerDB.db = demo_mem\<rparr>)
   \<and> map_of (rev demo_kvs) [3] = Some [4]
   \<and> (\<exists>s. fst (pebbleDB_Get \<lparr>pebbleDB.db = demo_mem\<rparr> Background [3]) = Return (s, None)
          \<and> slice_bytes s = [4])
   \<and> (\<exists>s. fst (badgerDB_Get \<lparr>badgerDB.db = demo_mem\<rparr> Background [3]) = Return (s, None)
          \<and> slice_bytes s = [4])"
proof -
  have a: "pebble_put_all demo_kvs (pebbleDB_Batch (pebble_open ClosedErrors)) (pebble_open ClosedErrors)
             = (True, \<lparr>pebbleBatch.batch = demo_ops\<rparr>, pebble_open ClosedErrors)"
    by (simp add: demo_kvs_def demo_ops_def pebbleDB_Batch_def pebble_NewBatch_def
        pebbleBatch_Put_def pebble_Batch_Set_def)
  have b: "badger_put_all demo_kvs (badgerDB_Batch (badger_open ClosedErrors)) (badger_open ClosedErrors)
             = (True, \<lparr>badgerBatch.batch = demo_ops\<rparr>, badger_open ClosedErrors)"
    by (simp add: demo_kvs_def demo_ops_def badgerDB_Batch_def badger_NewWriteBatch_def
        badgerBatch_Put_def badger_WB_Set_def)
  have c: "pebbleBatch_Commit \<lparr>pebbleBatch.batch = demo_ops\<rparr> Background (pebble_open ClosedErrors)
     = (Return None, \<lparr>pebbleBatch.batch = demo_ops\<lparr>committed := True\<rparr>\<rparr>, \<lparr>pebbleDB.db = demo_mem\<rparr>)"
    by (simp add: demo_ops_def demo_mem_def pebbleBatch_Commit_def pebble_Batch_Commit_def
        pebble_open_def open_engine_def)
  have d: "badgerBatch_Commit \<lparr>badgerBatch.batch = demo_ops\<rparr> Background (badger_open ClosedErrors)
     = (Return None, \<lparr>badgerBatch.batch = demo_ops\<lparr>committed := True\<rparr>\<rparr>, \<lparr>badgerDB.db = demo_mem\<rparr>)"
    by (simp add: demo_ops_def demo_mem_def badgerBatch_Commit_def badger_WB_Flush_def
        badger_open_def open_engine_def)
  have e: "map_of (rev demo_kvs) [3] = Some [4]"
    by (simp add: demo_kvs_def)
  from batch_all_or_nothing [OF new_batch_uncommitted(1) a new_batch_uncommitted(2) b,
         of Background "[3]"
         "\<lparr>pebbleBatch.batch = demo_ops\<lparr>committed := True\<rparr>\<rparr>" "\<lparr>pebbleDB.db = demo_mem\<rparr>" "[4]" Background
         "\<lparr>badgerBatch.batch = demo_ops\<lparr>committed := True\<rparr>\<rparr>" "\<lparr>badgerDB.db = demo_mem\<rparr>"]
  show ?thesis using a b c d e new_batch_uncommitted by simp
qed

section \<open>Scan and the iterators\<close>

text \<open>
  Claim C2 fails on the Pebble adapter at the empty prefix: \<^verbatim>\<open>upbound[len(upbound)-1]++\<close>
  indexes an empty slice at \<open>-1\<close>, so \<^verbatim>\<open>Scan\<close> panics before it reaches the engine, on every
  core. At the prefix \<^verbatim>\<open>0xFF\<close> the increment wraps to \<^verbatim>\<open>0x00\<close>: the upper bound lies below the
  lower bound, and the iterator holds no entry although the store has a key with that
  prefix, which the Badger adapter's \<^verbatim>\<open>Scan\<close> does hold.
\<close>

theorem scan_empty_prefix_panics:
  "fst (pebbleDB_Scan p []) = Panic (IndexOutOfRange (- 1) 0)
   \<and> incr_at [255] (int (length [255 :: 8 word]) - 1) = Return [0]
   \<and> (\<exists>it. fst (pebbleDB_Scan pebble_ff [255]) = Return (Some it)
          \<and> snapshot (pebbleIteractor.iteractor it) = [])
   \<and> (\<exists>it. badgerDB_Scan badger_ff [255] = Return it
          \<and> snapshot (iteractor it) = [([255, 1], [7])])"
  by (simp add: pebbleDB_Scan_def incr_at_def pebble_ff_def badger_ff_def pebble_NewIter_def
      open_engine_def in_bounds_def badgerDB_Scan_def badger_NewTransaction_def
      badger_Txn_NewIterator_def has_prefix_def Let_def)

text \<open>
  Claim C3 fails on an iterator that has recorded no fault: \<^verbatim>\<open>it.err[len(it.err)-1]\<close> indexes
  the empty error list at \<open>-1\<close>, so \<^verbatim>\<open>Error()\<close> panics instead of returning nil. This holds
  for the iterator of every Badger \<^verbatim>\<open>Scan\<close> that returns one (on a closed core \<^verbatim>\<open>Scan\<close> itself
  panics), so for every prefix on an open store, and for the iterator the Pebble \<^verbatim>\<open>Scan\<close>
  returns on an open store.
\<close>

theorem error_on_fresh_iterator_panics:
  "(case badgerDB_Scan b prefix of
      Return it \<Rightarrow> badgerIteractor_Error it = Panic (IndexOutOfRange (- 1) 0)
    | Panic x \<Rightarrow> closed (db b))
   \<and> (\<exists>it. badgerDB_Scan (badger_open pol) prefix = Return it
          \<and> badgerIteractor_Error it = Panic (IndexOutOfRange (- 1) 0))
   \<and> (\<exists>it. fst (pebbleDB_Scan (pebble_open pol) [1]) = Return (Some it)
          \<and> pebbleIteractor_Error it = Panic (IndexOutOfRange (- 1) 0))"
  by (simp add: badgerIteractor_Error_def badgerDB_Scan_def index_at_def Let_def
      badger_NewTransaction_def badger_Txn_NewIterator_def badger_open_def
      pebbleIteractor_Error_def pebbleDB_Scan_def incr_at_def pebble_NewIter_def pebble_open_def
      open_engine_def)

text \<open>Once a fault has been recorded, \<^verbatim>\<open>Error()\<close> returns the latest one and changes nothing.\<close>

lemma error_returns_latest:
  "pebbleIteractor_Error (it\<lparr>pebbleIteractor.err := es @ [e]\<rparr>) = Return e"
  "badgerIteractor_Error (bi\<lparr>err := es @ [e]\<rparr>) = Return e"
  by (simp_all add: pebbleIteractor_Error_def badgerIteractor_Error_def index_at_def)

text \<open>The protocol states follow the calls: a scan has not started, \<^verbatim>\<open>Next\<close> positions or exhausts.\<close>

lemma scan_not_started:
  "badgerDB_Scan b prefix = Return bi \<Longrightarrow> badger_iter_state bi = NotStarted"
  "fst (pebbleDB_Scan p prefix) = Return (Some it) \<Longrightarrow> pebble_iter_state it = NotStarted"
  by (auto simp add: badger_iter_state_def badgerDB_Scan_def Let_def pebble_iter_state_def
      pebbleDB_Scan_def split: outcome.splits prod.splits sum.splits)

lemma next_state:
  "pebble_iter_state (snd (pebbleIteractor_Next pi0)) =
     (if fst (pebbleIteractor_Next pi0) then Positioned else Exhausted)"
  "badger_iter_state (snd (badgerIteractor_Next bi)) =
     (if fst (badgerIteractor_Next bi) then Positioned else Exhausted)"
  by (auto simp add: pebble_iter_state_def pebbleIteractor_Next_def badger_iter_state_def
      badgerIteractor_Next_def Let_def split: prod.splits)

lemma value_keeps_state:
  "pebble_iter_state (snd (pebbleIteractor_Value pi0)) = pebble_iter_state pi0"
  "badger_iter_state (snd (badgerIteractor_Value bi)) = badger_iter_state bi"
  by (auto simp add: pebble_iter_state_def pebbleIteractor_Value_def badger_iter_state_def
      badgerIteractor_Value_def split: prod.splits option.splits outcome.splits)

text \<open>
  Claim C7: while an iterator is not positioned (not started, or exhausted), \<^verbatim>\<open>Key()\<close> and
  \<^verbatim>\<open>Value()\<close> return nil, in both adapters, and \<^verbatim>\<open>Value()\<close> leaves the iterator as it is; so a
  non-nil key or value is returned only in the positioned state, and never a stale one.
\<close>

theorem key_value_absent_unless_positioned:
  "(pebble_iter_state pi0 \<noteq> Positioned \<longrightarrow>
      pebbleIteractor_Key pi0 = NilSlice \<and> pebbleIteractor_Value pi0 = (NilSlice, pi0))
   \<and> (badger_iter_state bi \<noteq> Positioned \<longrightarrow>
      badgerIteractor_Key bi = Return NilSlice \<and> badgerIteractor_Value bi = (Return NilSlice, bi))"
  by (simp add: pebble_iter_state_def badger_iter_state_def pebbleIteractor_Key_def
      pebbleIteractor_Value_def badgerIteractor_Key_def badgerIteractor_Value_def)

theorem key_value_absent_unless_positioned_witness:
  "fst (pebbleDB_Scan (pebble_open ClosedPanics) [1]) = Return (Some fresh_pebble_iter)
   \<and> badgerDB_Scan (badger_open ClosedErrors) [1] = Return fresh_badger_iter
   \<and> pebble_iter_state fresh_pebble_iter \<noteq> Positioned
   \<and> pebbleIteractor_Key fresh_pebble_iter = NilSlice
   \<and> pebbleIteractor_Value fresh_pebble_iter = (NilSlice, fresh_pebble_iter)
   \<and> badger_iter_state (snd (badgerIteractor_Next fresh_badger_iter)) \<noteq> Positioned
   \<and> badgerIteractor_Key (snd (badgerIteractor_Next fresh_badger_iter)) = Return NilSlice"
  using key_value_absent_unless_positioned
          [of fresh_pebble_iter "snd (badgerIteractor_Next fresh_badger_iter)"]
  by (simp add: scan_open_pebble scan_open_badger pebble_iter_state_def fresh_pebble_iter_def
      badger_iter_state_def fresh_badger_iter_def badgerIteractor_Next_def
      badger_Iter_Rewind_def badger_Iter_Valid_def iter_seek_def Let_def)

text \<open>
  Claim C10: when the engine's iterator constructor returns an error for the bounds that
  \<^verbatim>\<open>Scan\<close> derives from a non-empty prefix, the Pebble adapter's \<^verbatim>\<open>Scan\<close> returns the nil
  iterator and no error; \<^verbatim>\<open>Next\<close> or \<^verbatim>\<open>Release\<close> on that result is a nil dereference.
\<close>

theorem scan_returns_nil_on_iterator_error:
  "prefix \<noteq> [] \<Longrightarrow>
   fst (pebble_NewIter (pebbleDB.db p)
          \<lparr>LowerBound = prefix, UpperBound = butlast prefix @ [last prefix + 1]\<rparr>) = Return (Inl e) \<Longrightarrow>
   fst (pebbleDB_Scan p prefix) = Return None
   \<and> Iterator_Next (case fst (pebbleDB_Scan p prefix) of Return i \<Rightarrow> i | Panic x \<Rightarrow> None)
       = Panic NilDereference
   \<and> Iterator_Release (case fst (pebbleDB_Scan p prefix) of Return i \<Rightarrow> i | Panic x \<Rightarrow> None)
       = Panic NilDereference"
  by (auto simp add: pebbleDB_Scan_def incr_at_last Iterator_Next_def Iterator_Release_def
      split: prod.splits outcome.splits sum.splits)

theorem scan_returns_nil_on_iterator_error_witness:
  "[1 :: 8 word] \<noteq> []
   \<and> fst (pebble_NewIter (pebbleDB.db pebble_broken_iter) \<lparr>LowerBound = [1], UpperBound = [2]\<rparr>)
       = Return (Inl (EngineError ''iterator''))
   \<and> fst (pebbleDB_Scan pebble_broken_iter [1]) = Return None"
  using scan_returns_nil_on_iterator_error [of "[1]" pebble_broken_iter "EngineError ''iterator''"]
  by (simp add: pebble_broken_iter_def pebble_NewIter_def open_engine_def)

section \<open>Put, Get, Delete and Close\<close>

lemma pebble_put_get:
  "pebbleDB_Put p ctx k v = (Return None, p') \<Longrightarrow>
   fst (pebbleDB_Get p' ctx' k) = Return (Slice Engine v, None)"
  by (auto simp add: pebbleDB_Put_def pebbleDB_Get_def pebble_Set_def pebble_Get_def on_closed_def
      map_of_kv_put split: if_splits option.splits closed_policy.splits)

lemma badger_put_get:
  "badgerDB_Put b ctx k v = (Return None, b') \<Longrightarrow> ctx_Err ctx' = None \<Longrightarrow>
   fst (badgerDB_Get b' ctx' k) = Return (Slice Caller v, None)"
  by (auto simp add: badgerDB_Put_def badgerDB_Get_def badger_Update_def badger_View_def
      badger_Txn_Set_def badger_Txn_Get_def badger_Txn_Commit_def badger_NewTransaction_def
      on_closed_def append_copy_def map_of_kv_put
      split: if_splits option.splits closed_policy.splits)

text \<open>
  Claim C5 fails on the Badger adapter when the context is done: \<^verbatim>\<open>Put\<close> misses the check of
  the context that \<^verbatim>\<open>Get\<close>, \<^verbatim>\<open>Delete\<close> and the batch's \<^verbatim>\<open>Commit\<close> make, so it writes and returns
  nil, and the following \<^verbatim>\<open>Get\<close> with the same context returns the context's error and no
  value. With a context that is live at \<^verbatim>\<open>Get\<close> the value is read back, as the two lemmas
  above say.
\<close>

theorem put_then_get_cancelled_context:
  "fst (badgerDB_Put (badger_open ClosedErrors) Cancelled [1] [2]) = Return None
   \<and> fst (badgerDB_Get (snd (badgerDB_Put (badger_open ClosedErrors) Cancelled [1] [2])) Cancelled [1])
       = Return (NilSlice, Some Canceled)"
  by (simp add: badgerDB_Put_def badgerDB_Get_def badger_open_def open_engine_def badger_Update_def
      badger_NewTransaction_def badger_Txn_Set_def badger_Txn_Commit_def)

text \<open>
  Claim C8 fails: no operation of the Pebble adapter looks at its context, and neither does
  \<^verbatim>\<open>Put\<close> of the Badger adapter, so each of them does with any context what it does with a
  live one. With a cancelled context, \<^verbatim>\<open>Put\<close> on an open core returns nil and has written
  the value, in both adapters.
\<close>

theorem context_not_checked:
  "pebbleDB_Put p ctx k v = pebbleDB_Put p Background k v
   \<and> pebbleDB_Get p ctx k = pebbleDB_Get p Background k
   \<and> pebbleDB_Delete p ctx k = pebbleDB_Delete p Background k
   \<and> badgerDB_Put b ctx k v = badgerDB_Put b Background k v
   \<and> pebbleDB_Put (pebble_open pol) Cancelled [1] [2]
       = (Return None, \<lparr>pebbleDB.db = (open_engine pol)\<lparr>mem := [([1], [2])]\<rparr>\<rparr>)
   \<and> badgerDB_Put (badger_open pol) Cancelled [1] [2]
       = (Return None, \<lparr>badgerDB.db = (open_engine pol)\<lparr>mem := [([1], [2])]\<rparr>\<rparr>)"
  by (simp add: pebbleDB_Put_def pebbleDB_Get_def pebbleDB_Delete_def badgerDB_Put_def
      pebble_open_def badger_open_def open_engine_def pebble_Set_def badger_Update_def
      badger_NewTransaction_def badger_Txn_Set_def badger_Txn_Commit_def)

text \<open>The Badger adapter's \<^verbatim>\<open>Get\<close> and \<^verbatim>\<open>Delete\<close> do return the error of a done context first.\<close>

lemma badger_get_delete_check_context:
  "ctx_Err ctx = Some e \<Longrightarrow> badgerDB_Get b ctx k = (Return (NilSlice, Some e), b)"
  "ctx_Err ctx = Some e \<Longrightarrow> badgerDB_Delete b ctx k = (Return (Some e), b)"
  by (simp_all add: badgerDB_Get_def badgerDB_Delete_def)

text \<open>
  Claim C9 fails on the Pebble adapter: \<^verbatim>\<open>Get\<close> returns the engine's own slice after its
  deferred \<^verbatim>\<open>closer.Close()\<close> has released the guard (no buffer stays pinned), so what the
  caller holds is engine memory, and it reads differently once the engine has rewritten
  that memory.
\<close>

theorem pebble_get_returns_engine_memory:
  "pebbleDB_Get pebble_one Background [1] = (Return (Slice Engine [2], None), pebble_one)
   \<and> pins (pebbleDB.db (snd (pebbleDB_Get pebble_one Background [1]))) = 0
   \<and> read_later [0] (Slice Engine [2]) \<noteq> [2]"
  by (simp add: pebble_one_def pebbleDB_Get_def pebble_Get_def open_engine_def closer_Close_def)

text \<open>Every successful \<^verbatim>\<open>Get\<close> of the Pebble adapter returns engine memory; Badger's a copy.\<close>

lemma pebble_get_aliases:
  "fst (pebbleDB_Get p ctx k) = Return (s, None) \<Longrightarrow> \<exists>v. s = Slice Engine v"
  by (auto simp add: pebbleDB_Get_def pebble_Get_def on_closed_def
      split: if_splits option.splits closed_policy.splits)

lemma badger_get_copies:
  "fst (badgerDB_Get b ctx k) = Return (s, None) \<Longrightarrow> read_later junk s = slice_bytes s"
  by (auto simp add: badgerDB_Get_def badger_View_def badger_Txn_Get_def on_closed_def
      badger_NewTransaction_def append_copy_def
      split: if_splits option.splits closed_policy.splits)







end
